theory Spec2Isabelle
  imports Complex_Main
begin

section \<open>The joystick gripper interface of rqt\_rover\_gui\<close>

text \<open>
  A shallow embedding of \<^verbatim>\<open>src/rqt_rover_gui/src/JoystickGripperInterface.cpp\<close>.

  The class is a record of its members, every method is a function from the object before
  the call to the outcome of the call. The \<^verbatim>\<open>float\<close> members and arguments are IEEE 754
  binary32 values, the unsuffixed literals of the source are binary64 values: sums and
  products are rounded to nearest, ties to even, overflow to an infinity, and NaN is a
  value that every comparison answers with false.
\<close>

subsection \<open>Floating-point values\<close>

text \<open>
  A value is a finite real, an infinity or NaN. The values of a format are those its
  rounding function returns; what is proved for every \<open>fp\<close> holds for them. The sign of
  zero is not modelled: no comparison, sum or product of the class tells \<^verbatim>\<open>-0.0\<close> from
  \<^verbatim>\<open>0.0\<close>, and the handlers store and publish \<^verbatim>\<open>0.0f\<close> for every small angle.
\<close>

datatype fp = Finite real | PInf | NInf | NaN

definition pow2 :: "int \<Rightarrow> real" where
  "pow2 e = (if 0 \<le> e then 2 ^ nat e else 1 / 2 ^ nat (- e))"

text \<open>
  The exponent of a non-negative real within the range of a format: the \<open>e\<close> with
  \<open>2 ^ e \<le> x < 2 ^ (e + 1)\<close>, but \<open>emax\<close> above the range and \<open>emin\<close> below it
  (subnormal numbers and zero). The third argument is \<open>x / 2 ^ e\<close> for the \<open>e\<close> reached.
\<close>

function exponent_up :: "int \<Rightarrow> int \<Rightarrow> real \<Rightarrow> int" where
  "exponent_up emax e x =
     (if e < emax \<and> 2 \<le> x then exponent_up emax (e + 1) (x / 2) else e)"
  by pat_completeness auto
termination
  by (relation "measure (\<lambda>(emax, e, x). nat (emax - e))") auto

function exponent_down :: "int \<Rightarrow> int \<Rightarrow> real \<Rightarrow> int" where
  "exponent_down emin e x =
     (if emin < e \<and> x < 1 then exponent_down emin (e - 1) (x * 2) else e)"
  by pat_completeness auto
termination
  by (relation "measure (\<lambda>(emin, e, x). nat (e - emin))") auto

declare exponent_up.simps [simp del] exponent_down.simps [simp del]

definition exponent :: "int \<Rightarrow> int \<Rightarrow> real \<Rightarrow> int" where
  "exponent emin emax x =
     (if 1 \<le> x then exponent_up emax 0 x else exponent_down emin 0 x)"

text \<open>The nearest integer, the even one of two that are equally near.\<close>

definition round_half_even :: "real \<Rightarrow> int" where
  "round_half_even m =
     (let f = \<lfloor>m\<rfloor>; d = m - of_int f in
      if d < 1 / 2 then f else if 1 / 2 < d then f + 1 else if even f then f else f + 1)"

text \<open>
  Rounding to a format of precision \<open>p\<close> and exponents \<open>emin\<close> to \<open>emax\<close>: the magnitude
  is rounded to a multiple of the quantum \<open>2 ^ (e - (p - 1))\<close> of its exponent; a result
  of \<open>2 ^ (emax + 1)\<close> is an infinity.
\<close>

definition round_to_quantum :: "real \<Rightarrow> real \<Rightarrow> real" where
  "round_to_quantum q a = real_of_int (round_half_even (a / q)) * q"

definition signed_result :: "int \<Rightarrow> real \<Rightarrow> real \<Rightarrow> fp" where
  "signed_result emax x r =
     (if pow2 (emax + 1) \<le> r then (if x < 0 then NInf else PInf)
      else Finite (if x < 0 then - r else r))"

definition round_fp :: "nat \<Rightarrow> int \<Rightarrow> int \<Rightarrow> real \<Rightarrow> fp" where
  "round_fp p emin emax x =
     signed_result emax x
       (round_to_quantum (pow2 (exponent emin emax \<bar>x\<bar> - (int p - 1))) \<bar>x\<bar>)"

definition binary32 :: "real \<Rightarrow> fp" where
  "binary32 x = round_fp 24 (- 126) 127 x"

definition binary64 :: "real \<Rightarrow> fp" where
  "binary64 x = round_fp 53 (- 1022) 1023 x"

text \<open>The conversion of a \<^verbatim>\<open>double\<close> to \<^verbatim>\<open>float\<close>, as in the assignment of a literal.\<close>

fun to_float :: "fp \<Rightarrow> fp" where
  "to_float (Finite x) = binary32 x"
| "to_float PInf = PInf"
| "to_float NInf = NInf"
| "to_float NaN = NaN"

text \<open>Negation and \<^verbatim>\<open>fabs\<close> are exact.\<close>

fun fneg :: "fp \<Rightarrow> fp" where
  "fneg (Finite x) = Finite (- x)"
| "fneg PInf = NInf"
| "fneg NInf = PInf"
| "fneg NaN = NaN"

fun fabs :: "fp \<Rightarrow> fp" where
  "fabs (Finite x) = Finite \<bar>x\<bar>"
| "fabs PInf = PInf"
| "fabs NInf = PInf"
| "fabs NaN = NaN"

text \<open>The comparisons \<^verbatim>\<open><\<close> and \<^verbatim>\<open><=\<close>: false as soon as an operand is NaN.\<close>

fun flt :: "fp \<Rightarrow> fp \<Rightarrow> bool" where
  "flt NaN b = False"
| "flt a NaN = False"
| "flt (Finite x) (Finite y) = (x < y)"
| "flt (Finite x) PInf = True"
| "flt (Finite x) NInf = False"
| "flt PInf b = False"
| "flt NInf NInf = False"
| "flt NInf b = True"

fun fle :: "fp \<Rightarrow> fp \<Rightarrow> bool" where
  "fle NaN b = False"
| "fle a NaN = False"
| "fle (Finite x) (Finite y) = (x \<le> y)"
| "fle (Finite x) PInf = True"
| "fle (Finite x) NInf = False"
| "fle PInf PInf = True"
| "fle PInf b = False"
| "fle NInf b = True"

text \<open>The sum and the product of two \<^verbatim>\<open>float\<close> values, each rounded to binary32.\<close>

fun fadd :: "fp \<Rightarrow> fp \<Rightarrow> fp" where
  "fadd NaN b = NaN"
| "fadd a NaN = NaN"
| "fadd (Finite x) (Finite y) = binary32 (x + y)"
| "fadd PInf NInf = NaN"
| "fadd NInf PInf = NaN"
| "fadd PInf b = PInf"
| "fadd NInf b = NInf"
| "fadd (Finite x) b = b"

fun fmul :: "fp \<Rightarrow> fp \<Rightarrow> fp" where
  "fmul NaN b = NaN"
| "fmul a NaN = NaN"
| "fmul (Finite x) (Finite y) = binary32 (x * y)"
| "fmul (Finite x) PInf = (if x = 0 then NaN else if 0 < x then PInf else NInf)"
| "fmul (Finite x) NInf = (if x = 0 then NaN else if 0 < x then NInf else PInf)"
| "fmul PInf (Finite y) = (if y = 0 then NaN else if 0 < y then PInf else NInf)"
| "fmul NInf (Finite y) = (if y = 0 then NaN else if 0 < y then NInf else PInf)"
| "fmul PInf PInf = PInf"
| "fmul PInf NInf = NInf"
| "fmul NInf PInf = NInf"
| "fmul NInf NInf = PInf"

subsection \<open>The collaborators: Qt timers and ROS publishers\<close>

text \<open>
  A \<^verbatim>\<open>QTimer\<close> is its run state and its interval in milliseconds. \<^verbatim>\<open>start(msec)\<close> sets the
  interval and (re)starts the timer, \<^verbatim>\<open>stop()\<close> stops it; a new timer is not running.
\<close>

record QTimer =
  isActive :: bool
  interval :: int

definition QTimer_new :: QTimer where
  "QTimer_new = \<lparr>isActive = False, interval = 0\<rparr>"

definition QTimer_start :: "int \<Rightarrow> QTimer \<Rightarrow> QTimer" where
  "QTimer_start msec t = t\<lparr>isActive := True, interval := msec\<rparr>"

definition QTimer_stop :: "QTimer \<Rightarrow> QTimer" where
  "QTimer_stop t = t\<lparr>isActive := False\<rparr>"

text \<open>
  A \<^verbatim>\<open>ros::NodeHandle\<close> is its namespace. A \<^verbatim>\<open>ros::Publisher\<close> is either advertised on a
  topic or not bound to any (default constructed, or after \<^verbatim>\<open>shutdown()\<close>). All topics of
  this class start with a slash, so they do not depend on the namespace of the handle.
\<close>

datatype NodeHandle = NodeHandle string

datatype Publisher = Advertised string | Unadvertised

definition advertise :: "NodeHandle \<Rightarrow> string \<Rightarrow> Publisher" where
  "advertise h topic = Advertised topic"

definition shutdown :: "Publisher \<Rightarrow> Publisher" where
  "shutdown p = Unadvertised"

subsection \<open>The object\<close>

text \<open>
  The members of the class. The two timers are pointers: \<open>None\<close> is a pointer that does
  not designate a \<^verbatim>\<open>QTimer\<close> (never assigned by \<^verbatim>\<open>new QTimer\<close>). The field \<open>published\<close>
  is not a member: it records, in order, every call of \<^verbatim>\<open>publish\<close> made by the object, as
  the publisher used and the \<^verbatim>\<open>data\<close> of the \<^verbatim>\<open>std_msgs::Float32\<close> message.
\<close>

record JoystickGripperInterface =
  ready :: bool
  nh :: NodeHandle
  roverName :: string
  gripperWristAnglePublisher :: Publisher
  gripperFingerAnglePublisher :: Publisher
  joystickGripperWristControlTimer :: "QTimer option"
  joystickGripperFingerControlTimer :: "QTimer option"
  wristAngle :: fp
  wristAngleChangeRate :: fp
  wristAngleMax :: fp
  wristAngleMin :: fp
  wristJoystickVector :: fp
  fingerAngle :: fp
  fingerAngleChangeRate :: fp
  fingerAngleMax :: fp
  fingerAngleMin :: fp
  fingerJoystickVector :: fp
  commandReapplyRate :: int
  stickCenterTolerance :: fp
  published :: "(Publisher \<times> fp) list"

text \<open>
  A call returns, throws (the object is then as it was at the \<^verbatim>\<open>throw\<close>), or faults: it
  dereferences a timer pointer that designates no timer.
\<close>

datatype exn = JoystickGripperInterfaceNotReadyException

datatype outcome =
  Returns JoystickGripperInterface
  | Throws exn JoystickGripperInterface
  | Faults

subsection \<open>Constructors\<close>

text \<open>
  The default constructor (lines 9-11) assigns \<open>ready\<close> only. The class-type members are
  default constructed; the scalar members keep whatever the storage \<open>mem\<close> held, and the
  timer pointers designate no timer.
\<close>

definition JoystickGripperInterface_default ::
  "JoystickGripperInterface \<Rightarrow> JoystickGripperInterface" where
  "JoystickGripperInterface_default mem =
     mem\<lparr>ready := False,
         nh := NodeHandle [],
         roverName := [],
         gripperWristAnglePublisher := Unadvertised,
         gripperFingerAnglePublisher := Unadvertised,
         joystickGripperWristControlTimer := None,
         joystickGripperFingerControlTimer := None,
         published := []\<rparr>"

text \<open>Storage filled with zero bytes.\<close>

definition zeroed :: JoystickGripperInterface where
  "zeroed =
     \<lparr>ready = False, nh = NodeHandle [], roverName = [],
      gripperWristAnglePublisher = Unadvertised, gripperFingerAnglePublisher = Unadvertised,
      joystickGripperWristControlTimer = None, joystickGripperFingerControlTimer = None,
      wristAngle = Finite 0, wristAngleChangeRate = Finite 0, wristAngleMax = Finite 0,
      wristAngleMin = Finite 0, wristJoystickVector = Finite 0,
      fingerAngle = Finite 0, fingerAngleChangeRate = Finite 0, fingerAngleMax = Finite 0,
      fingerAngleMin = Finite 0, fingerJoystickVector = Finite 0,
      commandReapplyRate = 0, stickCenterTolerance = Finite 0, published = []\<rparr>"

text \<open>
  The constructor from a node handle and a rover name (lines 47-94). A literal with a
  decimal point is a \<^verbatim>\<open>double\<close> converted to \<^verbatim>\<open>float\<close> by the assignment; the
  integer literal 0 is converted exactly.
\<close>

definition JoystickGripperInterface_new :: "NodeHandle \<Rightarrow> string \<Rightarrow> JoystickGripperInterface" where
  "JoystickGripperInterface_new h name =
     \<lparr>ready = True,
      nh = h,
      roverName = name,
      gripperWristAnglePublisher = advertise h (''/'' @ name @ ''/wristAngle''),
      gripperFingerAnglePublisher = advertise h (''/'' @ name @ ''/fingerAngle''),
      joystickGripperWristControlTimer = Some QTimer_new,
      joystickGripperFingerControlTimer = Some QTimer_new,
      wristAngle = Finite 0,
      wristAngleChangeRate = to_float (binary64 (1 / 10)),
      wristAngleMax = to_float (binary64 1),
      wristAngleMin = to_float (binary64 0),
      wristJoystickVector = to_float (binary64 0),
      fingerAngle = Finite 0,
      fingerAngleChangeRate = to_float (binary64 (1 / 10)),
      fingerAngleMax = to_float (binary64 2),
      fingerAngleMin = to_float (binary64 0),
      fingerJoystickVector = to_float (binary64 0),
      commandReapplyRate = 100,
      stickCenterTolerance = to_float (binary64 (5 / 100)),
      published = []\<rparr>"

subsection \<open>Joystick input\<close>

text \<open>\<^verbatim>\<open>moveWrist\<close> (lines 99-114): the input is negated before it is stored.\<close>

definition moveWrist :: "fp \<Rightarrow> JoystickGripperInterface \<Rightarrow> outcome" where
  "moveWrist vec s =
     (if \<not> ready s then Throws JoystickGripperInterfaceNotReadyException s
      else
        let s1 = s\<lparr>wristJoystickVector := fneg vec\<rparr> in
        case joystickGripperWristControlTimer s1 of
          None \<Rightarrow> Faults
        | Some t \<Rightarrow>
            if flt (fabs (wristJoystickVector s1)) (stickCenterTolerance s1)
            then Returns (s1\<lparr>joystickGripperWristControlTimer := Some (QTimer_stop t)\<rparr>)
            else Returns (s1\<lparr>joystickGripperWristControlTimer :=
                                Some (QTimer_start (commandReapplyRate s1) t)\<rparr>))"

text \<open>\<^verbatim>\<open>moveFingers\<close> (lines 120-135).\<close>

definition moveFingers :: "fp \<Rightarrow> JoystickGripperInterface \<Rightarrow> outcome" where
  "moveFingers vec s =
     (if \<not> ready s then Throws JoystickGripperInterfaceNotReadyException s
      else
        let s1 = s\<lparr>fingerJoystickVector := vec\<rparr> in
        case joystickGripperFingerControlTimer s1 of
          None \<Rightarrow> Faults
        | Some t \<Rightarrow>
            if flt (fabs (fingerJoystickVector s1)) (stickCenterTolerance s1)
            then Returns (s1\<lparr>joystickGripperFingerControlTimer := Some (QTimer_stop t)\<rparr>)
            else Returns (s1\<lparr>joystickGripperFingerControlTimer :=
                                Some (QTimer_start (commandReapplyRate s1) t)\<rparr>))"

subsection \<open>The timer event handlers\<close>

text \<open>
  The wrist handler (lines 140-157), statement by statement: the new angle, a binary32
  product added in binary32 (line 143), the limits (lines 146-147), the small angles set
  to zero, by a comparison with the \<^verbatim>\<open>double\<close> 0.001 (line 151), the message (lines
  153-155).
\<close>

definition wristAngleIntegrated :: "JoystickGripperInterface \<Rightarrow> fp" where
  "wristAngleIntegrated s =
     fadd (wristAngle s) (fmul (wristJoystickVector s) (wristAngleChangeRate s))"

definition wristAngleLimited :: "JoystickGripperInterface \<Rightarrow> fp" where
  "wristAngleLimited s =
     (let a = wristAngleIntegrated s in
      if flt (wristAngleMax s) a then wristAngleMax s
      else if flt a (wristAngleMin s) then wristAngleMin s
      else a)"

definition wristAngleCommanded :: "JoystickGripperInterface \<Rightarrow> fp" where
  "wristAngleCommanded s =
     (let a = wristAngleLimited s in
      if flt (fabs a) (binary64 (1 / 1000)) then Finite 0 else a)"

definition joystickGripperWristControlTimerEventHandler ::
  "JoystickGripperInterface \<Rightarrow> JoystickGripperInterface" where
  "joystickGripperWristControlTimerEventHandler s =
     (let s1 = s\<lparr>wristAngle := wristAngleCommanded s\<rparr> in
      s1\<lparr>published := published s1 @ [(gripperWristAnglePublisher s1, wristAngle s1)]\<rparr>)"

text \<open>The finger handler (lines 188-206).\<close>

definition fingerAngleIntegrated :: "JoystickGripperInterface \<Rightarrow> fp" where
  "fingerAngleIntegrated s =
     fadd (fingerAngle s) (fmul (fingerJoystickVector s) (fingerAngleChangeRate s))"

definition fingerAngleLimited :: "JoystickGripperInterface \<Rightarrow> fp" where
  "fingerAngleLimited s =
     (let a = fingerAngleIntegrated s in
      if flt (fingerAngleMax s) a then fingerAngleMax s
      else if flt a (fingerAngleMin s) then fingerAngleMin s
      else a)"

definition fingerAngleCommanded :: "JoystickGripperInterface \<Rightarrow> fp" where
  "fingerAngleCommanded s =
     (let a = fingerAngleLimited s in
      if flt (fabs a) (binary64 (1 / 1000)) then Finite 0 else a)"

definition joystickGripperFingerControlTimerEventHandler ::
  "JoystickGripperInterface \<Rightarrow> JoystickGripperInterface" where
  "joystickGripperFingerControlTimerEventHandler s =
     (let s1 = s\<lparr>fingerAngle := fingerAngleCommanded s\<rparr> in
      s1\<lparr>published := published s1 @ [(gripperFingerAnglePublisher s1, fingerAngle s1)]\<rparr>)"

subsection \<open>Changing the rover\<close>

text \<open>\<^verbatim>\<open>changeRovers\<close> (lines 159-183). It does not test \<open>ready\<close>; it uses both timers.\<close>

definition changeRovers :: "string \<Rightarrow> JoystickGripperInterface \<Rightarrow> outcome" where
  "changeRovers name s =
     (let s1 = s\<lparr>ready := False\<rparr> in
      case joystickGripperWristControlTimer s1 of
        None \<Rightarrow> Faults
      | Some tw \<Rightarrow>
          let s2 = s1\<lparr>joystickGripperWristControlTimer := Some (QTimer_stop tw)\<rparr> in
          (case joystickGripperFingerControlTimer s2 of
            None \<Rightarrow> Faults
          | Some tf \<Rightarrow>
              let s3 = s2\<lparr>joystickGripperFingerControlTimer := Some (QTimer_stop tf)\<rparr>;
                  s4 = s3\<lparr>gripperWristAnglePublisher := shutdown (gripperWristAnglePublisher s3),
                          gripperFingerAnglePublisher := shutdown (gripperFingerAnglePublisher s3)\<rparr>;
                  s5 = s4\<lparr>fingerAngle := Finite 0, wristAngle := Finite 0\<rparr>;
                  s6 = s5\<lparr>fingerJoystickVector := to_float (binary64 0),
                          wristJoystickVector := to_float (binary64 0)\<rparr>;
                  s7 = s6\<lparr>roverName := name\<rparr>;
                  s8 = s7\<lparr>gripperWristAnglePublisher :=
                            advertise (nh s7) (''/'' @ name @ ''/wristAngle''),
                          gripperFingerAnglePublisher :=
                            advertise (nh s7) (''/'' @ name @ ''/fingerAngle'')\<rparr>
              in Returns (s8\<lparr>ready := True\<rparr>)))"

subsection \<open>Histories of calls\<close>

text \<open>
  The calls the surrounding GUI makes on the object, and a history of them run from a
  state. A history ends at the first call that does not return.
\<close>

datatype call =
  MoveWrist fp
  | MoveFingers fp
  | WristTimeout
  | FingerTimeout
  | ChangeRovers string

fun perform :: "call \<Rightarrow> JoystickGripperInterface \<Rightarrow> outcome" where
  "perform (MoveWrist v) s = moveWrist v s"
| "perform (MoveFingers v) s = moveFingers v s"
| "perform WristTimeout s = Returns (joystickGripperWristControlTimerEventHandler s)"
| "perform FingerTimeout s = Returns (joystickGripperFingerControlTimerEventHandler s)"
| "perform (ChangeRovers name) s = changeRovers name s"

fun run :: "call list \<Rightarrow> JoystickGripperInterface \<Rightarrow> outcome" where
  "run [] s = Returns s"
| "run (c # cs) s =
     (case perform c s of
        Returns s' \<Rightarrow> run cs s'
      | Throws e s' \<Rightarrow> Throws e s'
      | Faults \<Rightarrow> Faults)"

text \<open>A call whose input, if it has one, is not NaN.\<close>

fun ordinary :: "call \<Rightarrow> bool" where
  "ordinary (MoveWrist v) = (v \<noteq> NaN)"
| "ordinary (MoveFingers v) = (v \<noteq> NaN)"
| "ordinary WristTimeout = True"
| "ordinary FingerTimeout = True"
| "ordinary (ChangeRovers name) = True"

text \<open>A timer pointer that designates a running timer.\<close>

definition running :: "QTimer option \<Rightarrow> bool" where
  "running p = (case p of None \<Rightarrow> False | Some t \<Rightarrow> isActive t)"

text \<open>The state of each joint, and the configuration shared by the two.\<close>

definition wristState ::
  "JoystickGripperInterface \<Rightarrow> fp \<times> fp \<times> QTimer option \<times> Publisher" where
  "wristState s =
     (wristAngle s, wristJoystickVector s, joystickGripperWristControlTimer s,
      gripperWristAnglePublisher s)"

definition fingerState ::
  "JoystickGripperInterface \<Rightarrow> fp \<times> fp \<times> QTimer option \<times> Publisher" where
  "fingerState s =
     (fingerAngle s, fingerJoystickVector s, joystickGripperFingerControlTimer s,
      gripperFingerAnglePublisher s)"

definition configuration ::
  "JoystickGripperInterface \<Rightarrow> (fp \<times> fp \<times> fp) \<times> (fp \<times> fp \<times> fp) \<times> fp \<times> int \<times> bool" where
  "configuration s =
     ((wristAngleMin s, wristAngleMax s, wristAngleChangeRate s),
      (fingerAngleMin s, fingerAngleMax s, fingerAngleChangeRate s),
      stickCenterTolerance s, commandReapplyRate s, ready s)"

text \<open>
  What the constructor establishes and every call without a NaN input keeps: the object
  is ready, both timers exist, the limits and change rates are the constructor's, no
  vector is NaN and the angles are within the limits.
\<close>

definition constructed :: "JoystickGripperInterface \<Rightarrow> bool" where
  "constructed s =
     (ready s \<and>
      joystickGripperWristControlTimer s \<noteq> None \<and>
      joystickGripperFingerControlTimer s \<noteq> None \<and>
      wristAngleMin s = Finite 0 \<and> wristAngleMax s = Finite 1 \<and>
      fingerAngleMin s = Finite 0 \<and> fingerAngleMax s = Finite 2 \<and>
      wristAngleChangeRate s = Finite (13421773 / 134217728) \<and>
      fingerAngleChangeRate s = Finite (13421773 / 134217728) \<and>
      wristJoystickVector s \<noteq> NaN \<and> fingerJoystickVector s \<noteq> NaN \<and>
      fle (Finite 0) (wristAngle s) \<and> fle (wristAngle s) (Finite 1) \<and>
      fle (Finite 0) (fingerAngle s) \<and> fle (fingerAngle s) (Finite 2))"

section \<open>Properties\<close>

subsection \<open>Values of literals and sums\<close>

text \<open>
  The definitions that a closed term needs to be evaluated, the binary32 and binary64
  values of the literals of the source, and the binary32 values nearest to the decimals
  used below.
\<close>

lemmas fp_eval = binary32_def binary64_def round_fp_def signed_result_def round_to_quantum_def
  exponent_def exponent_up.simps exponent_down.simps round_half_even_def pow2_def Let_def

lemma literal_values:
  "to_float (binary64 0) = Finite 0"
  "to_float (binary64 1) = Finite 1"
  "to_float (binary64 2) = Finite 2"
  "to_float (binary64 (1 / 10)) = Finite (13421773 / 134217728)"
  "to_float (binary64 (5 / 100)) = Finite (13421773 / 268435456)"
  "binary64 (1 / 1000) = Finite (1152921504606847 / 1152921504606846976)"
  by (simp_all add: fp_eval)

lemma decimal_values:
  "binary32 (1 / 10) = Finite (13421773 / 134217728)"
  "binary32 (2 / 10) = Finite (13421773 / 67108864)"
  "binary32 (3 / 10) = Finite (5033165 / 16777216)"
  "binary32 (4 / 10) = Finite (13421773 / 33554432)"
  "binary32 (5 / 10) = Finite (1 / 2)"
  "binary32 (2 / 100) = Finite (5368709 / 268435456)"
  "binary32 (5 / 100) = Finite (13421773 / 268435456)"
  by (simp_all add: fp_eval)

text \<open>
  The \<^verbatim>\<open>double\<close> 0.001 lies just above the real \<open>1 / 1000\<close>: whatever is below the
  real in absolute value is below the \<^verbatim>\<open>double\<close>.
\<close>

lemma below_thousandth:
  "flt (fabs a) (Finite (1 / 1000)) \<Longrightarrow> flt (fabs a) (binary64 (1 / 1000))"
  unfolding literal_values by (cases a) simp_all

text \<open>
  Rounding never gives NaN; a product with a finite non-zero factor and a sum with a
  finite term are NaN only if the other operand is.
\<close>

lemma round_fp_not_NaN: "round_fp p emin emax x \<noteq> NaN"
  by (simp add: round_fp_def signed_result_def)

lemma fmul_not_NaN: "v \<noteq> NaN \<Longrightarrow> r \<noteq> 0 \<Longrightarrow> fmul v (Finite r) \<noteq> NaN"
  by (cases v) (simp_all add: binary32_def round_fp_not_NaN)

lemma fadd_not_NaN: "b \<noteq> NaN \<Longrightarrow> fadd (Finite a) b \<noteq> NaN"
  by (cases b) (simp_all add: binary32_def round_fp_not_NaN)

lemma fneg_not_NaN: "v \<noteq> NaN \<Longrightarrow> fneg v \<noteq> NaN"
  by (cases v) simp_all

lemma fle_between: "fle (Finite l) a \<Longrightarrow> fle a (Finite u) \<Longrightarrow> \<exists>x. a = Finite x"
  by (cases a) simp_all

text \<open>
  The object built by the constructor, with its literals evaluated.
\<close>

lemma new_values:
  "JoystickGripperInterface_new h name =
     \<lparr>ready = True, nh = h, roverName = name,
      gripperWristAnglePublisher = Advertised (''/'' @ name @ ''/wristAngle''),
      gripperFingerAnglePublisher = Advertised (''/'' @ name @ ''/fingerAngle''),
      joystickGripperWristControlTimer = Some QTimer_new,
      joystickGripperFingerControlTimer = Some QTimer_new,
      wristAngle = Finite 0,
      wristAngleChangeRate = Finite (13421773 / 134217728),
      wristAngleMax = Finite 1,
      wristAngleMin = Finite 0,
      wristJoystickVector = Finite 0,
      fingerAngle = Finite 0,
      fingerAngleChangeRate = Finite (13421773 / 134217728),
      fingerAngleMax = Finite 2,
      fingerAngleMin = Finite 0,
      fingerJoystickVector = Finite 0,
      commandReapplyRate = 100,
      stickCenterTolerance = Finite (13421773 / 268435456),
      published = []\<rparr>"
  unfolding JoystickGripperInterface_new_def literal_values advertise_def by simp

subsection \<open>The angles stay within their limits\<close>

text \<open>
  When the integrated angle is not NaN, the commanded angle is within the limits of the
  constructor, whatever the angle was before.
\<close>

lemma wrist_commanded_within:
  assumes "wristAngleIntegrated s \<noteq> NaN"
    and "wristAngleMin s = Finite 0" and "wristAngleMax s = Finite 1"
  shows "fle (Finite 0) (wristAngleCommanded s) \<and> fle (wristAngleCommanded s) (Finite 1)"
  using assms
  by (cases "wristAngleIntegrated s")
    (simp_all add: wristAngleCommanded_def wristAngleLimited_def Let_def)

lemma finger_commanded_within:
  assumes "fingerAngleIntegrated s \<noteq> NaN"
    and "fingerAngleMin s = Finite 0" and "fingerAngleMax s = Finite 2"
  shows "fle (Finite 0) (fingerAngleCommanded s) \<and> fle (fingerAngleCommanded s) (Finite 2)"
  using assms
  by (cases "fingerAngleIntegrated s")
    (simp_all add: fingerAngleCommanded_def fingerAngleLimited_def Let_def)

text \<open>
  In a \<open>constructed\<close> object the integrated angle is not NaN. The constructor
  establishes \<open>constructed\<close>; every call without a NaN input made in such a state returns
  and keeps it.
\<close>

lemma wrist_integrated_not_NaN:
  assumes "constructed s"
  shows "wristAngleIntegrated s \<noteq> NaN"
proof -
  from assms obtain a where a: "wristAngle s = Finite a"
    unfolding constructed_def using fle_between by blast
  from assms have "fmul (wristJoystickVector s) (wristAngleChangeRate s) \<noteq> NaN"
    by (simp add: constructed_def fmul_not_NaN)
  then show ?thesis
    by (simp add: wristAngleIntegrated_def a fadd_not_NaN)
qed

lemma finger_integrated_not_NaN:
  assumes "constructed s"
  shows "fingerAngleIntegrated s \<noteq> NaN"
proof -
  from assms obtain a where a: "fingerAngle s = Finite a"
    unfolding constructed_def using fle_between by blast
  from assms have "fmul (fingerJoystickVector s) (fingerAngleChangeRate s) \<noteq> NaN"
    by (simp add: constructed_def fmul_not_NaN)
  then show ?thesis
    by (simp add: fingerAngleIntegrated_def a fadd_not_NaN)
qed

lemma new_constructed: "constructed (JoystickGripperInterface_new h name)"
  by (simp add: constructed_def new_values)

lemma wrist_handler_constructed:
  assumes "constructed s"
  shows "constructed (joystickGripperWristControlTimerEventHandler s)"
proof -
  have lim: "wristAngleMin s = Finite 0" "wristAngleMax s = Finite 1"
    using assms by (simp_all add: constructed_def)
  from wrist_commanded_within [OF wrist_integrated_not_NaN [OF assms] lim] assms
  show ?thesis
    by (simp add: joystickGripperWristControlTimerEventHandler_def Let_def constructed_def)
qed

lemma finger_handler_constructed:
  assumes "constructed s"
  shows "constructed (joystickGripperFingerControlTimerEventHandler s)"
proof -
  have lim: "fingerAngleMin s = Finite 0" "fingerAngleMax s = Finite 2"
    using assms by (simp_all add: constructed_def)
  from finger_commanded_within [OF finger_integrated_not_NaN [OF assms] lim] assms
  show ?thesis
    by (simp add: joystickGripperFingerControlTimerEventHandler_def Let_def constructed_def)
qed

lemma perform_constructed:
  assumes "constructed s" and "ordinary c"
  shows "\<exists>s'. perform c s = Returns s' \<and> constructed s'"
proof (cases c)
  case (MoveWrist v)
  with assms show ?thesis
    by (auto simp add: constructed_def moveWrist_def Let_def fneg_not_NaN)
next
  case (MoveFingers v)
  with assms show ?thesis
    by (auto simp add: constructed_def moveFingers_def Let_def)
next
  case WristTimeout
  with wrist_handler_constructed [OF assms(1)] show ?thesis by simp
next
  case FingerTimeout
  with finger_handler_constructed [OF assms(1)] show ?thesis by simp
next
  case (ChangeRovers name)
  have "\<exists>s'. changeRovers name s = Returns s' \<and> constructed s'"
    using assms(1) unfolding changeRovers_def literal_values
    by (auto simp add: constructed_def Let_def)
  with ChangeRovers show ?thesis by simp
qed

lemma run_constructed:
  "constructed s \<Longrightarrow> list_all ordinary cs \<Longrightarrow> \<exists>s'. run cs s = Returns s' \<and> constructed s'"
proof (induction cs arbitrary: s)
  case Nil
  then show ?case by simp
next
  case (Cons c cs)
  from Cons.prems have o: "ordinary c" "list_all ordinary cs" by simp_all
  from perform_constructed [OF Cons.prems(1) o(1)] obtain s1
    where s1: "perform c s = Returns s1" "constructed s1" by blast
  from Cons.IH [OF s1(2) o(2)] s1(1) show ?case by simp
qed

text \<open>
  C1, as stated, fails: on the ready object built by the constructor, \<^verbatim>\<open>moveFingers\<close>
  with a NaN input starts the finger timer (\<^verbatim>\<open>fabs(NaN) < 0.05\<close> is false), and the next
  timer event stores and publishes NaN, which no comparison of lines 193-199 catches; NaN
  is neither at least 0 nor at most 2.
\<close>

theorem NaN_input_counterexample:
  "run [MoveFingers NaN, FingerTimeout] (JoystickGripperInterface_new (NodeHandle []) ''achilles'') =
     Returns ((JoystickGripperInterface_new (NodeHandle []) ''achilles'')
       \<lparr>joystickGripperFingerControlTimer := Some (QTimer_start 100 QTimer_new),
        fingerAngle := NaN,
        fingerJoystickVector := NaN,
        published := [(Advertised ''/achilles/fingerAngle'', NaN)]\<rparr>) \<and>
   ready (JoystickGripperInterface_new (NodeHandle []) ''achilles'') \<and>
   \<not> fle (Finite 0) NaN \<and> \<not> fle NaN (Finite 2)"
  by (simp add: new_values moveFingers_def Let_def
      joystickGripperFingerControlTimerEventHandler_def fingerAngleCommanded_def
      fingerAngleLimited_def fingerAngleIntegrated_def)

text \<open>
  C1, amended. Every history of calls (joystick input for either joint, timer events of
  either joint, changes of rover) whose inputs are not NaN, on an object built by the
  constructor, returns, and afterwards, so after any timer event, the limits are those of
  the constructor (wrist 0 to 1, fingers 0 to 2) and each angle is within the limits of
  its joint. Infinite inputs are included.
\<close>

theorem angles_within_limits:
  assumes "list_all ordinary cs"
  shows
    "\<exists>s'. run cs (JoystickGripperInterface_new h name) = Returns s' \<and>
       wristAngleMin s' = Finite 0 \<and> wristAngleMax s' = Finite 1 \<and>
       fingerAngleMin s' = Finite 0 \<and> fingerAngleMax s' = Finite 2 \<and>
       fle (wristAngleMin s') (wristAngle s') \<and> fle (wristAngle s') (wristAngleMax s') \<and>
       fle (fingerAngleMin s') (fingerAngle s') \<and> fle (fingerAngle s') (fingerAngleMax s')"
proof -
  from run_constructed [OF new_constructed assms] obtain s'
    where "run cs (JoystickGripperInterface_new h name) = Returns s'" "constructed s'"
    by blast
  then show ?thesis by (auto simp add: constructed_def)
qed

theorem angles_within_limits_witness:
  "list_all ordinary [MoveWrist (Finite (- 1)), WristTimeout, MoveFingers PInf, FingerTimeout] \<and>
   (\<exists>s'. run [MoveWrist (Finite (- 1)), WristTimeout, MoveFingers PInf, FingerTimeout]
           (JoystickGripperInterface_new (NodeHandle []) ''achilles'') = Returns s' \<and>
       wristAngleMin s' = Finite 0 \<and> wristAngleMax s' = Finite 1 \<and>
       fingerAngleMin s' = Finite 0 \<and> fingerAngleMax s' = Finite 2 \<and>
       fle (wristAngleMin s') (wristAngle s') \<and> fle (wristAngle s') (wristAngleMax s') \<and>
       fle (fingerAngleMin s') (fingerAngle s') \<and> fle (fingerAngle s') (fingerAngleMax s'))"
proof -
  have h: "list_all ordinary
      [MoveWrist (Finite (- 1)), WristTimeout, MoveFingers PInf, FingerTimeout]"
    by simp
  from h angles_within_limits [OF h, of "NodeHandle []" "''achilles''"] show ?thesis
    by (intro conjI)
qed

subsection \<open>Joystick input\<close>

text \<open>
  C2. When \<open>ready\<close> is false, \<^verbatim>\<open>moveWrist\<close> and \<^verbatim>\<open>moveFingers\<close> throw
  \<^verbatim>\<open>JoystickGripperInterfaceNotReadyException\<close> for every input and the object is left as
  it was; when \<open>ready\<close> is true neither throws.
\<close>

theorem move_not_ready_throws:
  "(\<not> ready s \<longrightarrow>
      moveWrist vec s = Throws JoystickGripperInterfaceNotReadyException s \<and>
      moveFingers vec s = Throws JoystickGripperInterfaceNotReadyException s) \<and>
   (ready s \<longrightarrow>
      (\<forall>e s'. moveWrist vec s \<noteq> Throws e s') \<and>
      (\<forall>e s'. moveFingers vec s \<noteq> Throws e s'))"
  by (simp add: moveWrist_def moveFingers_def Let_def split: option.splits)

theorem move_not_ready_throws_witness:
  "\<not> ready (JoystickGripperInterface_default zeroed) \<and>
   moveWrist (Finite 1) (JoystickGripperInterface_default zeroed) =
     Throws JoystickGripperInterfaceNotReadyException (JoystickGripperInterface_default zeroed) \<and>
   moveFingers (Finite 1) (JoystickGripperInterface_default zeroed) =
     Throws JoystickGripperInterfaceNotReadyException (JoystickGripperInterface_default zeroed) \<and>
   ready (JoystickGripperInterface_new (NodeHandle []) ''achilles'') \<and>
   moveWrist (Finite 1) (JoystickGripperInterface_new (NodeHandle []) ''achilles'') \<noteq>
     Throws JoystickGripperInterfaceNotReadyException
       (JoystickGripperInterface_new (NodeHandle []) ''achilles'') \<and>
   moveFingers (Finite 1) (JoystickGripperInterface_new (NodeHandle []) ''achilles'') \<noteq>
     Throws JoystickGripperInterfaceNotReadyException
       (JoystickGripperInterface_new (NodeHandle []) ''achilles'')"
  using move_not_ready_throws [of "JoystickGripperInterface_default zeroed" "Finite 1"]
    move_not_ready_throws [of "JoystickGripperInterface_new (NodeHandle []) ''achilles''" "Finite 1"]
  by (simp add: JoystickGripperInterface_default_def JoystickGripperInterface_new_def)

text \<open>
  C3. In a ready object whose timers exist, \<^verbatim>\<open>moveWrist\<close> and \<^verbatim>\<open>moveFingers\<close> return,
  and the timer of the joint is stopped exactly when the absolute value of the stored
  vector is below \<open>stickCenterTolerance\<close>; otherwise (also for a NaN input) it is started
  with the interval \<open>commandReapplyRate\<close>. The timer before the call, running or not, is
  arbitrary. In the object built by the constructor the tolerance is the \<^verbatim>\<open>float\<close> 0.05
  and the interval 100 ms: the \<^verbatim>\<open>float\<close> 0.02 stops the timer, the \<^verbatim>\<open>float\<close> 0.05 starts
  it.
\<close>

theorem move_timer_dead_zone:
  assumes "ready s"
    and "joystickGripperWristControlTimer s = Some tw"
    and "joystickGripperFingerControlTimer s = Some tf"
  shows
    "(\<exists>s'. moveWrist vec s = Returns s' \<and>
        joystickGripperWristControlTimer s' =
          Some (if flt (fabs (wristJoystickVector s')) (stickCenterTolerance s)
                then QTimer_stop tw else QTimer_start (commandReapplyRate s) tw) \<and>
        running (joystickGripperWristControlTimer s') =
          (\<not> flt (fabs (wristJoystickVector s')) (stickCenterTolerance s))) \<and>
     (\<exists>s'. moveFingers vec s = Returns s' \<and>
        joystickGripperFingerControlTimer s' =
          Some (if flt (fabs (fingerJoystickVector s')) (stickCenterTolerance s)
                then QTimer_stop tf else QTimer_start (commandReapplyRate s) tf) \<and>
        running (joystickGripperFingerControlTimer s') =
          (\<not> flt (fabs (fingerJoystickVector s')) (stickCenterTolerance s)))"
  using assms
  by (simp add: moveWrist_def moveFingers_def Let_def running_def QTimer_stop_def QTimer_start_def)

theorem move_timer_dead_zone_witness:
  "ready (JoystickGripperInterface_new (NodeHandle []) ''achilles'') \<and>
   joystickGripperWristControlTimer (JoystickGripperInterface_new (NodeHandle []) ''achilles'')
     = Some QTimer_new \<and>
   joystickGripperFingerControlTimer (JoystickGripperInterface_new (NodeHandle []) ''achilles'')
     = Some QTimer_new \<and>
   stickCenterTolerance (JoystickGripperInterface_new (NodeHandle []) ''achilles'')
     = Finite (13421773 / 268435456) \<and>
   (\<exists>s'. moveWrist (Finite (5368709 / 268435456))
            (JoystickGripperInterface_new (NodeHandle []) ''achilles'') = Returns s' \<and>
         joystickGripperWristControlTimer s' = Some (QTimer_stop QTimer_new) \<and>
         \<not> running (joystickGripperWristControlTimer s')) \<and>
   (\<exists>s'. moveFingers (Finite (13421773 / 268435456))
            (JoystickGripperInterface_new (NodeHandle []) ''achilles'') = Returns s' \<and>
         joystickGripperFingerControlTimer s' = Some (QTimer_start 100 QTimer_new) \<and>
         running (joystickGripperFingerControlTimer s'))"
  using move_timer_dead_zone [of "JoystickGripperInterface_new (NodeHandle []) ''achilles''"
      QTimer_new QTimer_new "Finite (5368709 / 268435456)"]
    move_timer_dead_zone [of "JoystickGripperInterface_new (NodeHandle []) ''achilles''"
      QTimer_new QTimer_new "Finite (13421773 / 268435456)"]
  unfolding new_values
  by (simp add: moveWrist_def moveFingers_def Let_def)

text \<open>
  C4. In a ready object whose timers exist, \<^verbatim>\<open>moveWrist\<close> stores the negated input as
  \<open>wristJoystickVector\<close> and \<^verbatim>\<open>moveFingers\<close> stores the input unchanged as
  \<open>fingerJoystickVector\<close>.
\<close>

theorem move_stores_vector:
  assumes "ready s"
    and "joystickGripperWristControlTimer s = Some tw"
    and "joystickGripperFingerControlTimer s = Some tf"
  shows
    "(\<exists>s'. moveWrist v s = Returns s' \<and> wristJoystickVector s' = fneg v) \<and>
     (\<exists>s'. moveFingers v s = Returns s' \<and> fingerJoystickVector s' = v)"
  using assms by (simp add: moveWrist_def moveFingers_def Let_def)

theorem move_stores_vector_witness:
  "ready (JoystickGripperInterface_new (NodeHandle []) ''achilles'') \<and>
   joystickGripperWristControlTimer (JoystickGripperInterface_new (NodeHandle []) ''achilles'')
     = Some QTimer_new \<and>
   joystickGripperFingerControlTimer (JoystickGripperInterface_new (NodeHandle []) ''achilles'')
     = Some QTimer_new \<and>
   (\<exists>s'. moveWrist (Finite (3 / 4)) (JoystickGripperInterface_new (NodeHandle []) ''achilles'')
            = Returns s' \<and> wristJoystickVector s' = Finite (- (3 / 4))) \<and>
   (\<exists>s'. moveFingers (Finite (3 / 4)) (JoystickGripperInterface_new (NodeHandle []) ''achilles'')
            = Returns s' \<and> fingerJoystickVector s' = Finite (3 / 4))"
  using move_stores_vector [of "JoystickGripperInterface_new (NodeHandle []) ''achilles''"
      QTimer_new QTimer_new "Finite (3 / 4)"]
  by (simp add: JoystickGripperInterface_new_def)

text \<open>
  C9. In a ready object whose timers exist, \<^verbatim>\<open>moveWrist\<close> and \<^verbatim>\<open>moveFingers\<close> return
  the object with nothing changed but the vector and the timer of the joint: no message is
  published and both angles are as before.
\<close>

theorem move_only_vector_and_timer:
  assumes "ready s"
    and "joystickGripperWristControlTimer s = Some tw"
    and "joystickGripperFingerControlTimer s = Some tf"
  shows
    "(\<exists>s'. moveWrist vec s = Returns s' \<and>
        published s' = published s \<and>
        wristAngle s' = wristAngle s \<and> fingerAngle s' = fingerAngle s \<and>
        s' = s\<lparr>wristJoystickVector := wristJoystickVector s',
               joystickGripperWristControlTimer := joystickGripperWristControlTimer s'\<rparr>) \<and>
     (\<exists>s'. moveFingers vec s = Returns s' \<and>
        published s' = published s \<and>
        wristAngle s' = wristAngle s \<and> fingerAngle s' = fingerAngle s \<and>
        s' = s\<lparr>fingerJoystickVector := fingerJoystickVector s',
               joystickGripperFingerControlTimer := joystickGripperFingerControlTimer s'\<rparr>)"
  using assms by (simp add: moveWrist_def moveFingers_def Let_def)

theorem move_only_vector_and_timer_witness:
  "ready (JoystickGripperInterface_new (NodeHandle []) ''achilles'') \<and>
   joystickGripperWristControlTimer (JoystickGripperInterface_new (NodeHandle []) ''achilles'')
     = Some QTimer_new \<and>
   joystickGripperFingerControlTimer (JoystickGripperInterface_new (NodeHandle []) ''achilles'')
     = Some QTimer_new \<and>
   (\<exists>s'. moveWrist (Finite 1) (JoystickGripperInterface_new (NodeHandle []) ''achilles'')
        = Returns s' \<and>
      published s' = [] \<and> wristAngle s' = Finite 0 \<and> fingerAngle s' = Finite 0) \<and>
   (\<exists>s'. moveFingers (Finite 1) (JoystickGripperInterface_new (NodeHandle []) ''achilles'')
        = Returns s' \<and>
      published s' = [] \<and> wristAngle s' = Finite 0 \<and> fingerAngle s' = Finite 0)"
proof -
  let ?N = "JoystickGripperInterface_new (NodeHandle []) ''achilles''"
  have h: "ready ?N" "joystickGripperWristControlTimer ?N = Some QTimer_new"
    "joystickGripperFingerControlTimer ?N = Some QTimer_new"
    by (simp_all add: JoystickGripperInterface_new_def)
  have v: "published ?N = []" "wristAngle ?N = Finite 0" "fingerAngle ?N = Finite 0"
    by (simp_all add: JoystickGripperInterface_new_def)
  from move_only_vector_and_timer [OF h, of "Finite 1"] h show ?thesis
    unfolding v by blast
qed

subsection \<open>Timer events\<close>

text \<open>
  C5. On a timer event, when the angle computed by the integration and the limits is
  below the \<^verbatim>\<open>double\<close> 0.001 in absolute value, the stored angle is exactly zero and the
  message published on the publisher of the joint carries exactly zero.
\<close>

theorem small_angle_published_as_zero:
  "(flt (fabs (wristAngleLimited s)) (binary64 (1 / 1000)) \<longrightarrow>
      wristAngle (joystickGripperWristControlTimerEventHandler s) = Finite 0 \<and>
      published (joystickGripperWristControlTimerEventHandler s) =
        published s @ [(gripperWristAnglePublisher s, Finite 0)]) \<and>
   (flt (fabs (fingerAngleLimited s)) (binary64 (1 / 1000)) \<longrightarrow>
      fingerAngle (joystickGripperFingerControlTimerEventHandler s) = Finite 0 \<and>
      published (joystickGripperFingerControlTimerEventHandler s) =
        published s @ [(gripperFingerAnglePublisher s, Finite 0)])"
  by (simp add: joystickGripperWristControlTimerEventHandler_def wristAngleCommanded_def
      joystickGripperFingerControlTimerEventHandler_def fingerAngleCommanded_def Let_def)

text \<open>
  An angle of \<open>1 / 2048\<close> with the stick centred stays \<open>1 / 2048\<close> through the
  integration and the limits.
\<close>

lemma small_angle_example:
  "wristAngleLimited ((JoystickGripperInterface_new (NodeHandle []) ''achilles'')
      \<lparr>wristAngle := Finite (1 / 2048)\<rparr>) = Finite (1 / 2048)"
  "fingerAngleLimited ((JoystickGripperInterface_new (NodeHandle []) ''achilles'')
      \<lparr>fingerAngle := Finite (1 / 2048)\<rparr>) = Finite (1 / 2048)"
  unfolding new_values
  by (simp_all add: wristAngleLimited_def wristAngleIntegrated_def
      fingerAngleLimited_def fingerAngleIntegrated_def fp_eval)

theorem small_angle_published_as_zero_witness:
  "flt (fabs (wristAngleLimited ((JoystickGripperInterface_new (NodeHandle []) ''achilles'')
      \<lparr>wristAngle := Finite (1 / 2048)\<rparr>))) (binary64 (1 / 1000)) \<and>
   wristAngleLimited ((JoystickGripperInterface_new (NodeHandle []) ''achilles'')
      \<lparr>wristAngle := Finite (1 / 2048)\<rparr>) = Finite (1 / 2048) \<and>
   wristAngle (joystickGripperWristControlTimerEventHandler
     ((JoystickGripperInterface_new (NodeHandle []) ''achilles'')
      \<lparr>wristAngle := Finite (1 / 2048)\<rparr>)) = Finite 0 \<and>
   published (joystickGripperWristControlTimerEventHandler
     ((JoystickGripperInterface_new (NodeHandle []) ''achilles'')
      \<lparr>wristAngle := Finite (1 / 2048)\<rparr>)) =
     [(Advertised ''/achilles/wristAngle'', Finite 0)] \<and>
   flt (fabs (fingerAngleLimited ((JoystickGripperInterface_new (NodeHandle []) ''achilles'')
      \<lparr>fingerAngle := Finite (1 / 2048)\<rparr>))) (binary64 (1 / 1000)) \<and>
   fingerAngle (joystickGripperFingerControlTimerEventHandler
     ((JoystickGripperInterface_new (NodeHandle []) ''achilles'')
      \<lparr>fingerAngle := Finite (1 / 2048)\<rparr>)) = Finite 0 \<and>
   published (joystickGripperFingerControlTimerEventHandler
     ((JoystickGripperInterface_new (NodeHandle []) ''achilles'')
      \<lparr>fingerAngle := Finite (1 / 2048)\<rparr>)) =
     [(Advertised ''/achilles/fingerAngle'', Finite 0)]"
proof -
  let ?W = "(JoystickGripperInterface_new (NodeHandle []) ''achilles'')
      \<lparr>wristAngle := Finite (1 / 2048)\<rparr>"
  let ?F = "(JoystickGripperInterface_new (NodeHandle []) ''achilles'')
      \<lparr>fingerAngle := Finite (1 / 2048)\<rparr>"
  have small: "flt (fabs (Finite (1 / 2048))) (binary64 (1 / 1000))"
    unfolding literal_values by simp
  have w: "flt (fabs (wristAngleLimited ?W)) (binary64 (1 / 1000))"
    and f: "flt (fabs (fingerAngleLimited ?F)) (binary64 (1 / 1000))"
    unfolding small_angle_example by (rule small)+
  have p: "published ?W = []" "published ?F = []"
    "gripperWristAnglePublisher ?W = Advertised ''/achilles/wristAngle''"
    "gripperFingerAnglePublisher ?F = Advertised ''/achilles/fingerAngle''"
    by (simp_all add: new_values)
  from small_angle_published_as_zero [of ?W] small_angle_published_as_zero [of ?F]
    w f small_angle_example(1)
  show ?thesis unfolding p append_Nil by blast
qed

text \<open>
  At full deflection the product of line 143 is the change rate itself, and the five
  sums of the scenario round as follows. One timer event at full deflection stores and
  publishes the rounded sum, when that is at least \<open>1 / 512\<close> and at most 1.
\<close>

lemma full_deflection_product:
  "fmul (Finite 1) (Finite (13421773 / 134217728)) = Finite (13421773 / 134217728)"
  by (simp add: fp_eval)

lemma tenth_sums:
  "fadd (Finite 0) (Finite (13421773 / 134217728)) = Finite (13421773 / 134217728)"
  "fadd (Finite (13421773 / 134217728)) (Finite (13421773 / 134217728)) =
     Finite (13421773 / 67108864)"
  "fadd (Finite (13421773 / 67108864)) (Finite (13421773 / 134217728)) =
     Finite (5033165 / 16777216)"
  "fadd (Finite (5033165 / 16777216)) (Finite (13421773 / 134217728)) =
     Finite (13421773 / 33554432)"
  "fadd (Finite (13421773 / 33554432)) (Finite (13421773 / 134217728)) = Finite (1 / 2)"
  by (simp_all add: fp_eval)

lemma wrist_tick_full_deflection:
  assumes "wristAngleMin s = Finite 0" and "wristAngleMax s = Finite 1"
    and "wristAngleChangeRate s = Finite (13421773 / 134217728)"
    and "wristJoystickVector s = Finite 1"
    and "wristAngle s = Finite a"
    and "fadd (Finite a) (Finite (13421773 / 134217728)) = Finite b"
    and "1 / 512 \<le> b" and "b \<le> 1"
  shows "joystickGripperWristControlTimerEventHandler s =
           s\<lparr>wristAngle := Finite b,
             published := published s @ [(gripperWristAnglePublisher s, Finite b)]\<rparr>"
proof -
  have i: "wristAngleIntegrated s = Finite b"
    unfolding wristAngleIntegrated_def assms(3,4,5) full_deflection_product by (rule assms(6))
  have l: "wristAngleLimited s = Finite b"
    using assms(1,2,7,8) by (simp add: wristAngleLimited_def i)
  have c: "wristAngleCommanded s = Finite b"
    unfolding wristAngleCommanded_def l literal_values using assms(7) by simp
  show ?thesis
    by (simp add: joystickGripperWristControlTimerEventHandler_def c Let_def)
qed

text \<open>
  C8. From a wrist angle of 0, with the change rate and the tolerance the \<^verbatim>\<open>float\<close>
  values of the literals 0.1 and 0.05 and the limits 0 and 1, \<^verbatim>\<open>moveWrist(-1.0)\<close> stores
  the vector 1.0 and leaves the wrist timer running, and the next five timer events give
  as wrist angles the \<^verbatim>\<open>float\<close> values 0.1, 0.2, 0.3, 0.4, 0.5, that is the binary32
  numbers nearest to these decimals, each published in turn. The sums are computed in
  binary32: the third is rounded up, the fourth and the fifth are rounded down.
\<close>

theorem wrist_scenario_five_ticks:
  assumes "ready s"
    and "joystickGripperWristControlTimer s = Some tw"
    and "wristAngle s = Finite 0"
    and "wristAngleChangeRate s = to_float (binary64 (1 / 10))"
    and "wristAngleMin s = Finite 0"
    and "wristAngleMax s = Finite 1"
    and "stickCenterTolerance s = to_float (binary64 (5 / 100))"
  shows
    "\<exists>s0 s1 s2 s3 s4 s5.
       moveWrist (Finite (- 1)) s = Returns s0 \<and>
       wristJoystickVector s0 = Finite 1 \<and>
       running (joystickGripperWristControlTimer s0) \<and>
       s1 = joystickGripperWristControlTimerEventHandler s0 \<and>
       s2 = joystickGripperWristControlTimerEventHandler s1 \<and>
       s3 = joystickGripperWristControlTimerEventHandler s2 \<and>
       s4 = joystickGripperWristControlTimerEventHandler s3 \<and>
       s5 = joystickGripperWristControlTimerEventHandler s4 \<and>
       [wristAngle s1, wristAngle s2, wristAngle s3, wristAngle s4, wristAngle s5] =
         [binary32 (1 / 10), binary32 (2 / 10), binary32 (3 / 10), binary32 (4 / 10),
          binary32 (5 / 10)] \<and>
       published s5 =
         published s @ map (Pair (gripperWristAnglePublisher s))
           [binary32 (1 / 10), binary32 (2 / 10), binary32 (3 / 10), binary32 (4 / 10),
            binary32 (5 / 10)]"
proof -
  let ?H = joystickGripperWristControlTimerEventHandler
  let ?P = "gripperWristAnglePublisher s"
  let ?a1 = "Finite (13421773 / 134217728)"
  let ?a2 = "Finite (13421773 / 67108864)"
  let ?a3 = "Finite (5033165 / 16777216)"
  let ?a4 = "Finite (13421773 / 33554432)"
  let ?a5 = "Finite (1 / 2)"
  note r = assms(4) [unfolded literal_values]
  note t = assms(7) [unfolded literal_values]
  define s0 where "s0 = s\<lparr>wristJoystickVector := Finite 1,
    joystickGripperWristControlTimer := Some (QTimer_start (commandReapplyRate s) tw)\<rparr>"
  define s1 where "s1 = s0\<lparr>wristAngle := ?a1, published := published s @ [(?P, ?a1)]\<rparr>"
  define s2 where "s2 = s0\<lparr>wristAngle := ?a2,
    published := published s @ [(?P, ?a1), (?P, ?a2)]\<rparr>"
  define s3 where "s3 = s0\<lparr>wristAngle := ?a3,
    published := published s @ [(?P, ?a1), (?P, ?a2), (?P, ?a3)]\<rparr>"
  define s4 where "s4 = s0\<lparr>wristAngle := ?a4,
    published := published s @ [(?P, ?a1), (?P, ?a2), (?P, ?a3), (?P, ?a4)]\<rparr>"
  define s5 where "s5 = s0\<lparr>wristAngle := ?a5,
    published := published s @ [(?P, ?a1), (?P, ?a2), (?P, ?a3), (?P, ?a4), (?P, ?a5)]\<rparr>"
  have m: "moveWrist (Finite (- 1)) s = Returns s0"
    using assms(1,2) t by (simp add: moveWrist_def Let_def s0_def)
  have v: "wristJoystickVector s0 = Finite 1"
    and u: "running (joystickGripperWristControlTimer s0)"
    by (simp_all add: s0_def running_def QTimer_start_def)
  have c0: "wristAngleMin s0 = Finite 0" "wristAngleMax s0 = Finite 1"
    "wristAngleChangeRate s0 = Finite (13421773 / 134217728)" "wristAngle s0 = Finite 0"
    using assms(3,5,6) r by (simp_all add: s0_def)
  have t1: "s1 = ?H s0"
    using wrist_tick_full_deflection [OF c0(1-3) v c0(4) tenth_sums(1)]
    by (simp add: s0_def s1_def)
  have t2: "s2 = ?H s1"
    using wrist_tick_full_deflection [of s1, OF _ _ _ _ _ tenth_sums(2)] c0 v
    by (simp add: s0_def s1_def s2_def)
  have t3: "s3 = ?H s2"
    using wrist_tick_full_deflection [of s2, OF _ _ _ _ _ tenth_sums(3)] c0 v
    by (simp add: s0_def s2_def s3_def)
  have t4: "s4 = ?H s3"
    using wrist_tick_full_deflection [of s3, OF _ _ _ _ _ tenth_sums(4)] c0 v
    by (simp add: s0_def s3_def s4_def)
  have t5: "s5 = ?H s4"
    using wrist_tick_full_deflection [of s4, OF _ _ _ _ _ tenth_sums(5)] c0 v
    by (simp add: s0_def s4_def s5_def)
  have a: "[wristAngle s1, wristAngle s2, wristAngle s3, wristAngle s4, wristAngle s5] =
         [binary32 (1 / 10), binary32 (2 / 10), binary32 (3 / 10), binary32 (4 / 10),
          binary32 (5 / 10)]"
    unfolding decimal_values by (simp add: s1_def s2_def s3_def s4_def s5_def)
  have p: "published s5 =
         published s @ map (Pair ?P)
           [binary32 (1 / 10), binary32 (2 / 10), binary32 (3 / 10), binary32 (4 / 10),
            binary32 (5 / 10)]"
    unfolding decimal_values by (simp add: s5_def)
  from m v u t1 t2 t3 t4 t5 a p show ?thesis
    by (intro exI [of _ s0] exI [of _ s1] exI [of _ s2] exI [of _ s3] exI [of _ s4]
        exI [of _ s5] conjI)
qed

theorem wrist_scenario_five_ticks_witness:
  "ready (JoystickGripperInterface_new (NodeHandle []) ''achilles'') \<and>
   joystickGripperWristControlTimer (JoystickGripperInterface_new (NodeHandle []) ''achilles'')
     = Some QTimer_new \<and>
   wristAngle (JoystickGripperInterface_new (NodeHandle []) ''achilles'') = Finite 0 \<and>
   wristAngleChangeRate (JoystickGripperInterface_new (NodeHandle []) ''achilles'')
     = to_float (binary64 (1 / 10)) \<and>
   wristAngleMin (JoystickGripperInterface_new (NodeHandle []) ''achilles'') = Finite 0 \<and>
   wristAngleMax (JoystickGripperInterface_new (NodeHandle []) ''achilles'') = Finite 1 \<and>
   stickCenterTolerance (JoystickGripperInterface_new (NodeHandle []) ''achilles'')
     = to_float (binary64 (5 / 100)) \<and>
   (\<exists>s0 s1 s2 s3 s4 s5.
       moveWrist (Finite (- 1)) (JoystickGripperInterface_new (NodeHandle []) ''achilles'')
         = Returns s0 \<and>
       s1 = joystickGripperWristControlTimerEventHandler s0 \<and>
       s2 = joystickGripperWristControlTimerEventHandler s1 \<and>
       s3 = joystickGripperWristControlTimerEventHandler s2 \<and>
       s4 = joystickGripperWristControlTimerEventHandler s3 \<and>
       s5 = joystickGripperWristControlTimerEventHandler s4 \<and>
       [wristAngle s1, wristAngle s2, wristAngle s3, wristAngle s4, wristAngle s5] =
         [Finite (13421773 / 134217728), Finite (13421773 / 67108864),
          Finite (5033165 / 16777216), Finite (13421773 / 33554432), Finite (1 / 2)] \<and>
       published s5 =
         map (Pair (Advertised ''/achilles/wristAngle''))
           [Finite (13421773 / 134217728), Finite (13421773 / 67108864),
            Finite (5033165 / 16777216), Finite (13421773 / 33554432), Finite (1 / 2)])"
proof -
  let ?N = "JoystickGripperInterface_new (NodeHandle []) ''achilles''"
  have h: "ready ?N" "joystickGripperWristControlTimer ?N = Some QTimer_new"
    "wristAngle ?N = Finite 0" "wristAngleChangeRate ?N = to_float (binary64 (1 / 10))"
    "wristAngleMin ?N = Finite 0" "wristAngleMax ?N = Finite 1"
    "stickCenterTolerance ?N = to_float (binary64 (5 / 100))"
    "published ?N = []" "gripperWristAnglePublisher ?N = Advertised ''/achilles/wristAngle''"
    unfolding literal_values by (simp_all add: new_values)
  have e: "\<exists>s0 s1 s2 s3 s4 s5.
       moveWrist (Finite (- 1)) ?N = Returns s0 \<and>
       s1 = joystickGripperWristControlTimerEventHandler s0 \<and>
       s2 = joystickGripperWristControlTimerEventHandler s1 \<and>
       s3 = joystickGripperWristControlTimerEventHandler s2 \<and>
       s4 = joystickGripperWristControlTimerEventHandler s3 \<and>
       s5 = joystickGripperWristControlTimerEventHandler s4 \<and>
       [wristAngle s1, wristAngle s2, wristAngle s3, wristAngle s4, wristAngle s5] =
         [Finite (13421773 / 134217728), Finite (13421773 / 67108864),
          Finite (5033165 / 16777216), Finite (13421773 / 33554432), Finite (1 / 2)] \<and>
       published s5 =
         map (Pair (Advertised ''/achilles/wristAngle''))
           [Finite (13421773 / 134217728), Finite (13421773 / 67108864),
            Finite (5033165 / 16777216), Finite (13421773 / 33554432), Finite (1 / 2)]"
  proof -
    from wrist_scenario_five_ticks [OF h(1-7)] obtain s0 s1 s2 s3 s4 s5 where f:
      "moveWrist (Finite (- 1)) ?N = Returns s0"
      "s1 = joystickGripperWristControlTimerEventHandler s0"
      "s2 = joystickGripperWristControlTimerEventHandler s1"
      "s3 = joystickGripperWristControlTimerEventHandler s2"
      "s4 = joystickGripperWristControlTimerEventHandler s3"
      "s5 = joystickGripperWristControlTimerEventHandler s4"
      "[wristAngle s1, wristAngle s2, wristAngle s3, wristAngle s4, wristAngle s5] =
         [binary32 (1 / 10), binary32 (2 / 10), binary32 (3 / 10), binary32 (4 / 10),
          binary32 (5 / 10)]"
      "published s5 = published ?N @ map (Pair (gripperWristAnglePublisher ?N))
         [binary32 (1 / 10), binary32 (2 / 10), binary32 (3 / 10), binary32 (4 / 10),
          binary32 (5 / 10)]"
      by (elim exE conjE)
    note a = f(7) [unfolded decimal_values]
    note p = f(8) [unfolded decimal_values h(8,9) append_Nil]
    from f(1-6) a p show ?thesis
      by (intro exI [of _ s0] exI [of _ s1] exI [of _ s2] exI [of _ s3] exI [of _ s4]
          exI [of _ s5] conjI)
  qed
  from h(1-7) e show ?thesis by (intro conjI)
qed

text \<open>
  C10. The joints are independent. A call of \<^verbatim>\<open>moveWrist\<close> that returns or throws, and
  the wrist timer event, leave the finger angle, vector, timer and publisher and the shared
  configuration (limits, change rates, tolerance, reapply rate, \<open>ready\<close>) as they were;
  likewise \<^verbatim>\<open>moveFingers\<close> and the finger timer event for the wrist. The two calls
  return whenever the object is ready and the timer of the joint exists.
\<close>

theorem joints_independent:
  "(\<forall>s' e. moveWrist v s = Returns s' \<or> moveWrist v s = Throws e s' \<longrightarrow>
      fingerState s' = fingerState s \<and> configuration s' = configuration s) \<and>
   (\<forall>s' e. moveFingers v s = Returns s' \<or> moveFingers v s = Throws e s' \<longrightarrow>
      wristState s' = wristState s \<and> configuration s' = configuration s) \<and>
   (ready s \<and> joystickGripperWristControlTimer s \<noteq> None \<longrightarrow>
      (\<exists>s'. moveWrist v s = Returns s')) \<and>
   (ready s \<and> joystickGripperFingerControlTimer s \<noteq> None \<longrightarrow>
      (\<exists>s'. moveFingers v s = Returns s')) \<and>
   fingerState (joystickGripperWristControlTimerEventHandler s) = fingerState s \<and>
   configuration (joystickGripperWristControlTimerEventHandler s) = configuration s \<and>
   wristState (joystickGripperFingerControlTimerEventHandler s) = wristState s \<and>
   configuration (joystickGripperFingerControlTimerEventHandler s) = configuration s"
  by (auto simp add: moveWrist_def moveFingers_def Let_def fingerState_def wristState_def
      configuration_def joystickGripperWristControlTimerEventHandler_def
      joystickGripperFingerControlTimerEventHandler_def split: option.splits if_splits)

theorem joints_independent_witness:
  "ready (JoystickGripperInterface_new (NodeHandle []) ''achilles'') \<and>
   joystickGripperWristControlTimer (JoystickGripperInterface_new (NodeHandle []) ''achilles'')
     \<noteq> None \<and>
   joystickGripperFingerControlTimer (JoystickGripperInterface_new (NodeHandle []) ''achilles'')
     \<noteq> None \<and>
   (\<exists>s'. moveWrist (Finite 1) (JoystickGripperInterface_new (NodeHandle []) ''achilles'')
        = Returns s' \<and>
      fingerState s' = (Finite 0, Finite 0, Some QTimer_new, Advertised ''/achilles/fingerAngle'') \<and>
      configuration s' =
        ((Finite 0, Finite 1, Finite (13421773 / 134217728)),
         (Finite 0, Finite 2, Finite (13421773 / 134217728)),
         Finite (13421773 / 268435456), 100, True)) \<and>
   (\<exists>s'. moveFingers (Finite 1) (JoystickGripperInterface_new (NodeHandle []) ''achilles'')
        = Returns s' \<and>
      wristState s' = (Finite 0, Finite 0, Some QTimer_new, Advertised ''/achilles/wristAngle'') \<and>
      configuration s' =
        ((Finite 0, Finite 1, Finite (13421773 / 134217728)),
         (Finite 0, Finite 2, Finite (13421773 / 134217728)),
         Finite (13421773 / 268435456), 100, True)) \<and>
   moveWrist (Finite 1) (JoystickGripperInterface_default zeroed) =
     Throws JoystickGripperInterfaceNotReadyException (JoystickGripperInterface_default zeroed) \<and>
   fingerState (JoystickGripperInterface_default zeroed) = (Finite 0, Finite 0, None, Unadvertised)"
  using joints_independent [of "Finite 1" "JoystickGripperInterface_new (NodeHandle []) ''achilles''"]
    joints_independent [of "Finite 1" "JoystickGripperInterface_default zeroed"]
  unfolding new_values
  by (simp add: JoystickGripperInterface_default_def zeroed_def
      moveWrist_def moveFingers_def Let_def fingerState_def wristState_def configuration_def)

subsection \<open>Changing the rover\<close>

text \<open>
  \<^verbatim>\<open>changeRovers\<close> faults exactly when a timer is missing, never throws, and what it
  returns does not depend on what an earlier \<^verbatim>\<open>changeRovers\<close> did.
\<close>

lemma changeRovers_faults:
  "changeRovers name s = Faults \<longleftrightarrow>
     joystickGripperWristControlTimer s = None \<or> joystickGripperFingerControlTimer s = None"
  by (simp add: changeRovers_def Let_def split: option.splits)

lemma changeRovers_no_throw: "changeRovers name s \<noteq> Throws e s'"
  by (simp add: changeRovers_def Let_def split: option.splits)

lemma changeRovers_again:
  "changeRovers n s = Returns s' \<Longrightarrow> changeRovers m s' = changeRovers m s"
  by (auto simp add: changeRovers_def Let_def QTimer_stop_def split: option.splits)

lemma changeRovers_post:
  "changeRovers name s = Returns s' \<Longrightarrow>
     wristAngle s' = Finite 0 \<and> fingerAngle s' = Finite 0 \<and>
     wristJoystickVector s' = Finite 0 \<and> fingerJoystickVector s' = Finite 0 \<and>
     ready s' \<and>
     \<not> running (joystickGripperWristControlTimer s') \<and>
     \<not> running (joystickGripperFingerControlTimer s') \<and>
     roverName s' = name \<and>
     gripperWristAnglePublisher s' = Advertised (''/'' @ name @ ''/wristAngle'') \<and>
     gripperFingerAnglePublisher s' = Advertised (''/'' @ name @ ''/fingerAngle'')"
  unfolding changeRovers_def literal_values
  by (auto simp add: Let_def QTimer_stop_def running_def advertise_def split: option.splits)

lemma run_changeRovers_last:
  "names \<noteq> [] \<Longrightarrow> run (map ChangeRovers names) s = changeRovers (last names) s"
proof (induction names arbitrary: s)
  case Nil
  then show ?case by simp
next
  case (Cons n ns)
  show ?case
  proof (cases ns)
    case Nil
    then show ?thesis by (cases "changeRovers n s") simp_all
  next
    case (Cons m ms)
    then have ne: "ns \<noteq> []" by simp
    show ?thesis
    proof (cases "changeRovers n s")
      case (Returns s1)
      with Cons.IH [OF ne, of s1] changeRovers_again [OF Returns, of "last ns"] ne
      show ?thesis by simp
    next
      case (Throws e s1)
      with changeRovers_no_throw show ?thesis by blast
    next
      case Faults
      then have "changeRovers (last ns) s = Faults"
        by (simp add: changeRovers_faults)
      with Faults ne show ?thesis by simp
    qed
  qed
qed

text \<open>
  C6, as stated, fails: the prior state may be that of a default-constructed object
  (here in zeroed storage), which has no timers; there the first of two consecutive calls
  of \<^verbatim>\<open>changeRovers\<close> dereferences the wrist timer and there is no post-state.
\<close>

theorem changeRovers_repeated_counterexample:
  "[''ajax'', ''aeneas''] \<noteq> [] \<and>
   run (map ChangeRovers [''ajax'', ''aeneas'']) (JoystickGripperInterface_default zeroed) = Faults"
  by (simp add: changeRovers_def JoystickGripperInterface_default_def Let_def)

text \<open>
  C6, amended. From any prior state in which both timers exist, any number (at least
  one) of consecutive calls of \<^verbatim>\<open>changeRovers\<close> returns, with the post-state of the last
  call alone: both angles and both vectors are zero, \<open>ready\<close> is true, neither timer is
  running, and the rover name and both publishers are those of the last name given.
\<close>

theorem changeRovers_repeated:
  assumes "names \<noteq> []"
    and "joystickGripperWristControlTimer s = Some tw"
    and "joystickGripperFingerControlTimer s = Some tf"
  shows
    "\<exists>s'. run (map ChangeRovers names) s = Returns s' \<and>
       changeRovers (last names) s = Returns s' \<and>
       wristAngle s' = Finite 0 \<and> fingerAngle s' = Finite 0 \<and>
       wristJoystickVector s' = Finite 0 \<and> fingerJoystickVector s' = Finite 0 \<and>
       ready s' \<and>
       \<not> running (joystickGripperWristControlTimer s') \<and>
       \<not> running (joystickGripperFingerControlTimer s') \<and>
       roverName s' = last names \<and>
       gripperWristAnglePublisher s' = Advertised (''/'' @ last names @ ''/wristAngle'') \<and>
       gripperFingerAnglePublisher s' = Advertised (''/'' @ last names @ ''/fingerAngle'')"
proof -
  have eq: "run (map ChangeRovers names) s = changeRovers (last names) s"
    using assms(1) by (rule run_changeRovers_last)
  from assms(2,3) obtain s' where r: "changeRovers (last names) s = Returns s'"
    by (cases "changeRovers (last names) s")
      (simp_all add: changeRovers_faults changeRovers_no_throw)
  from changeRovers_post [OF r] eq r show ?thesis by simp
qed

theorem changeRovers_repeated_witness:
  "[''ajax'', ''aeneas''] \<noteq> [] \<and>
   joystickGripperWristControlTimer
     ((JoystickGripperInterface_new (NodeHandle []) ''achilles'')
        \<lparr>wristAngle := Finite (1 / 2), wristJoystickVector := Finite 1,
          joystickGripperWristControlTimer := Some (QTimer_start 100 QTimer_new)\<rparr>)
     = Some (QTimer_start 100 QTimer_new) \<and>
   joystickGripperFingerControlTimer
     ((JoystickGripperInterface_new (NodeHandle []) ''achilles'')
        \<lparr>wristAngle := Finite (1 / 2), wristJoystickVector := Finite 1,
          joystickGripperWristControlTimer := Some (QTimer_start 100 QTimer_new)\<rparr>)
     = Some QTimer_new \<and>
   (\<exists>s'. run (map ChangeRovers [''ajax'', ''aeneas''])
       ((JoystickGripperInterface_new (NodeHandle []) ''achilles'')
        \<lparr>wristAngle := Finite (1 / 2), wristJoystickVector := Finite 1,
          joystickGripperWristControlTimer := Some (QTimer_start 100 QTimer_new)\<rparr>) = Returns s' \<and>
      wristAngle s' = Finite 0 \<and> wristJoystickVector s' = Finite 0 \<and> ready s' \<and>
      \<not> running (joystickGripperWristControlTimer s') \<and>
      roverName s' = ''aeneas'' \<and>
      gripperWristAnglePublisher s' = Advertised ''/aeneas/wristAngle'' \<and>
      gripperFingerAnglePublisher s' = Advertised ''/aeneas/fingerAngle'')"
proof -
  let ?S = "(JoystickGripperInterface_new (NodeHandle []) ''achilles'')
        \<lparr>wristAngle := Finite (1 / 2), wristJoystickVector := Finite 1,
          joystickGripperWristControlTimer := Some (QTimer_start 100 QTimer_new)\<rparr>"
  have n: "[''ajax'', ''aeneas''] \<noteq> []" "last [''ajax'', ''aeneas''] = ''aeneas''"
    by simp_all
  have h: "joystickGripperWristControlTimer ?S = Some (QTimer_start 100 QTimer_new)"
    "joystickGripperFingerControlTimer ?S = Some QTimer_new"
    by (simp_all add: JoystickGripperInterface_new_def)
  from changeRovers_repeated [OF n(1) h] h n(1) show ?thesis
    unfolding n(2) append.simps by blast
qed

text \<open>
  C7, as stated, fails: on a default-constructed object (here in zeroed storage), which
  is not ready and has no timers, \<^verbatim>\<open>changeRovers\<close> dereferences the wrist timer and
  does not return.
\<close>

theorem changeRovers_unconstructed_counterexample:
  "\<not> ready (JoystickGripperInterface_default zeroed) \<and>
   changeRovers ''achilles'' (JoystickGripperInterface_default zeroed) = Faults"
  by (simp add: changeRovers_def JoystickGripperInterface_default_def Let_def)

text \<open>
  C7, amended. \<^verbatim>\<open>changeRovers\<close> has no precondition on \<open>ready\<close>: in every state where
  both timers exist, ready or not, it returns and \<open>ready\<close> is true afterwards.
\<close>

theorem changeRovers_needs_timers_only:
  assumes "joystickGripperWristControlTimer s = Some tw"
    and "joystickGripperFingerControlTimer s = Some tf"
  shows "\<exists>s'. changeRovers name s = Returns s' \<and> ready s'"
  using assms by (simp add: changeRovers_def Let_def)

theorem changeRovers_needs_timers_only_witness:
  "\<not> ready ((JoystickGripperInterface_new (NodeHandle []) ''achilles'')\<lparr>ready := False\<rparr>) \<and>
   joystickGripperWristControlTimer
     ((JoystickGripperInterface_new (NodeHandle []) ''achilles'')\<lparr>ready := False\<rparr>)
     = Some QTimer_new \<and>
   joystickGripperFingerControlTimer
     ((JoystickGripperInterface_new (NodeHandle []) ''achilles'')\<lparr>ready := False\<rparr>)
     = Some QTimer_new \<and>
   (\<exists>s'. changeRovers ''ajax''
       ((JoystickGripperInterface_new (NodeHandle []) ''achilles'')\<lparr>ready := False\<rparr>)
       = Returns s' \<and> ready s')"
proof -
  let ?S = "(JoystickGripperInterface_new (NodeHandle []) ''achilles'')\<lparr>ready := False\<rparr>"
  have h: "joystickGripperWristControlTimer ?S = Some QTimer_new"
    "joystickGripperFingerControlTimer ?S = Some QTimer_new"
    by (simp_all add: JoystickGripperInterface_new_def)
  have r: "\<not> ready ?S" by simp
  from changeRovers_needs_timers_only [OF h, of "''ajax''"] h r show ?thesis by blast
qed

end
